theory Spec2Isabelle
  imports Complex_Main
begin

section \<open>ScanVault: the scan orchestration engine\<close>

text \<open>
  A shallow embedding of the backend services \<^verbatim>\<open>scanOrchestrator.js\<close>,
  \<^verbatim>\<open>wsl2Bridge.js\<close>, \<^verbatim>\<open>odcBridge.js\<close>, \<^verbatim>\<open>folderRegistry.js\<close> and of the
  route \<^verbatim>\<open>POST /api/scan\<close>. JavaScript strings are \<open>string\<close>s, \<^verbatim>\<open>undefined\<close> and
  \<^verbatim>\<open>null\<close> are \<open>None\<close>, a rejected promise or a thrown \<^verbatim>\<open>Error\<close> is the left
  summand of a sum, and the mutable fields of an object are a record that every
  function takes and returns.
\<close>

subsection \<open>JavaScript string primitives\<close>

text \<open>\<^verbatim>\<open>s.startsWith(t)\<close> and \<^verbatim>\<open>s.includes(t)\<close>: \<open>t\<close> occurs in \<open>s\<close> as a substring.\<close>

fun startsWith :: "string \<Rightarrow> string \<Rightarrow> bool" where
  "startsWith s [] = True"
| "startsWith [] (c # t) = False"
| "startsWith (a # s) (c # t) = (a = c \<and> startsWith s t)"

fun str_includes :: "string \<Rightarrow> string \<Rightarrow> bool" where
  "str_includes [] t = (t = [])"
| "str_includes (a # s) t = (startsWith (a # s) t \<or> str_includes s t)"

text \<open>The decimal rendering of a line number inside a template literal.\<close>

definition digit :: "nat \<Rightarrow> char" where
  "digit d = (if d = 0 then CHR ''0'' else if d = 1 then CHR ''1'' else if d = 2 then CHR ''2''
     else if d = 3 then CHR ''3'' else if d = 4 then CHR ''4'' else if d = 5 then CHR ''5''
     else if d = 6 then CHR ''6'' else if d = 7 then CHR ''7'' else if d = 8 then CHR ''8''
     else CHR ''9'')"

fun show_nat :: "nat \<Rightarrow> string" where
  "show_nat n = (if n < 10 then [digit n] else show_nat (n div 10) @ [digit (n mod 10)])"

declare show_nat.simps [simp del]

subsection \<open>Findings\<close>

text \<open>
  One result object as the mock generators and the parsers build it. The fields
  \<^verbatim>\<open>id\<close>, \<^verbatim>\<open>type\<close>, \<^verbatim>\<open>file\<close> and \<^verbatim>\<open>fix\<close> carry a prime because their names are
  reserved. \<^verbatim>\<open>id\<close> and \<^verbatim>\<open>description\<close> are \<^verbatim>\<open>undefined\<close> when a parser finds none
  of the raw fields it falls back on. The additional fields a parser copies from the raw
  record without reading them again (confidence, impact, cwe, owasp, pkgName, cvss and so
  on, and \<^verbatim>\<open>references\<close>) are not listed: the record is extensible, and the
  deduplication below is defined on every extension of it, so its theorems hold whatever
  further fields a finding carries.
\<close>

record finding =
  id' :: "string option"
  tool :: string
  severity :: string
  type' :: string
  file' :: string
  line :: nat
  description :: "string option"
  fix' :: string

subsection \<open>\<^verbatim>\<open>ScanOrchestrator.deduplicateResults\<close>\<close>

text \<open>
  \<^verbatim>\<open>const key = `${result.file}:${result.line}:${result.type}`\<close>
\<close>

definition dedupKey :: "'a finding_scheme \<Rightarrow> string" where
  "dedupKey r = file' r @ '':'' @ show_nat (line r) @ '':'' @ type' r"

text \<open>
  The body of the \<^verbatim>\<open>if (seen.has(key))\<close> branch: \<open>existing\<close> is the object stored under
  the key, and its \<^verbatim>\<open>tool\<close> field is overwritten in place unless it already
  \<^verbatim>\<open>includes\<close> the tool of the dropped result.
\<close>

definition mergeTool :: "'a finding_scheme \<Rightarrow> 'a finding_scheme \<Rightarrow> 'a finding_scheme" where
  "mergeTool existing r =
     (if \<not> str_includes (tool existing) (tool r)
      then existing\<lparr>tool := tool existing @ '', '' @ tool r\<rparr>
      else existing)"

text \<open>
  The objects that \<^verbatim>\<open>filter\<close> has kept so far are exactly the values of the map
  \<^verbatim>\<open>seen\<close>, and the array that \<^verbatim>\<open>filter\<close> returns holds the same objects, so an
  assignment to \<^verbatim>\<open>existing.tool\<close> is visible in the returned array. The list \<open>kept\<close>
  stands for both: \<open>mergeInto\<close> is \<^verbatim>\<open>seen.get(key)\<close> followed by the assignment.
\<close>

fun mergeInto :: "'a finding_scheme \<Rightarrow> 'a finding_scheme list \<Rightarrow> 'a finding_scheme list" where
  "mergeInto r [] = []"
| "mergeInto r (e # es) =
     (if dedupKey e = dedupKey r then mergeTool e r # es else e # mergeInto r es)"

fun dedupLoop :: "'a finding_scheme list \<Rightarrow> 'a finding_scheme list \<Rightarrow> 'a finding_scheme list" where
  "dedupLoop kept [] = kept"
| "dedupLoop kept (r # rs) =
     (if dedupKey r \<in> set (map dedupKey kept)
      then dedupLoop (mergeInto r kept) rs
      else dedupLoop (kept @ [r]) rs)"

definition deduplicateResults :: "'a finding_scheme list \<Rightarrow> 'a finding_scheme list" where
  "deduplicateResults results = dedupLoop [] results"

text \<open>
  The deduplication of the specification (section 4.4), written from its words, for
  comparison: the first finding with a key is the canonical record, the later findings
  with the same key are dropped while the canonical record's tool field is extended by
  each of their tools that it does not contain yet, and the canonical records come in the
  order of the first appearance of their keys. The function takes the relation "has the
  same key" as a parameter: in \<open>dedupe_spec\<close> the key is the triple (file, line, type)
  of the specification, in \<open>dedupeBy sameKey\<close> it is the string that the source builds.
\<close>

definition sameIssue :: "'a finding_scheme \<Rightarrow> 'a finding_scheme \<Rightarrow> bool" where
  "sameIssue r s = (file' s = file' r \<and> line s = line r \<and> type' s = type' r)"

definition sameKey :: "'a finding_scheme \<Rightarrow> 'a finding_scheme \<Rightarrow> bool" where
  "sameKey r s = (dedupKey s = dedupKey r)"

function dedupeBy :: "('a finding_scheme \<Rightarrow> 'a finding_scheme \<Rightarrow> bool) \<Rightarrow> 'a finding_scheme list
    \<Rightarrow> 'a finding_scheme list" where
  "dedupeBy same [] = []"
| "dedupeBy same (r # rs) =
     foldl mergeTool r (filter (same r) rs) # dedupeBy same (filter (\<lambda>s. \<not> same r s) rs)"
  by pat_completeness auto
termination
  by (relation "measure (\<lambda>(same, rs). length rs)") (auto simp: less_Suc_eq_le)

definition dedupe_spec :: "'a finding_scheme list \<Rightarrow> 'a finding_scheme list" where
  "dedupe_spec rs = dedupeBy sameIssue rs"

subsection \<open>More string primitives\<close>

definition lowerAlphabet :: string where
  "lowerAlphabet = ''abcdefghijklmnopqrstuvwxyz''"

definition upperAlphabet :: string where
  "upperAlphabet = ''ABCDEFGHIJKLMNOPQRSTUVWXYZ''"

text \<open>
  \<^verbatim>\<open>toUpperCase\<close> and \<^verbatim>\<open>toLowerCase\<close> on the ASCII letters; the characters of a
  \<open>string\<close> are bytes, so the case mappings of other scripts are outside the model.
\<close>

definition toUpperChar :: "char \<Rightarrow> char" where
  "toUpperChar c = (case map_of (zip lowerAlphabet upperAlphabet) c of Some u \<Rightarrow> u | None \<Rightarrow> c)"

definition toUpperCase :: "string \<Rightarrow> string" where
  "toUpperCase s = map toUpperChar s"

definition toLowerChar :: "char \<Rightarrow> char" where
  "toLowerChar c = (case map_of (zip upperAlphabet lowerAlphabet) c of Some l \<Rightarrow> l | None \<Rightarrow> c)"

definition toLowerCase :: "string \<Rightarrow> string" where
  "toLowerCase s = map toLowerChar s"

definition isSpace :: "char \<Rightarrow> bool" where
  "isSpace c = (c \<in> set [CHR '' '', CHR 0x09, CHR 0x0A, CHR 0x0B, CHR 0x0C, CHR 0x0D])"

definition trim :: "string \<Rightarrow> string" where
  "trim s = rev (dropWhile isSpace (rev (dropWhile isSpace s)))"

text \<open>\<^verbatim>\<open>s.replace(/c/g, t)\<close> for a single character \<open>c\<close>.\<close>

definition replaceAll :: "char \<Rightarrow> string \<Rightarrow> string \<Rightarrow> string" where
  "replaceAll c t s = concat (map (\<lambda>x. if x = c then t else [x]) s)"

definition backslash :: char where
  "backslash = CHR 0x5C"

text \<open>\<^verbatim>\<open>s.replace(/^\/mnt\/[a-z]\//, '')\<close>\<close>

definition stripMountPrefix :: "string \<Rightarrow> string" where
  "stripMountPrefix s =
     (if startsWith s ''/mnt/'' \<and> 7 \<le> length s \<and> s ! 5 \<in> set lowerAlphabet \<and> s ! 6 = CHR ''/''
      then drop 7 s else s)"

text \<open>\<^verbatim>\<open>s.split('.').pop()\<close>: what follows the last dot, or all of \<open>s\<close>.\<close>

definition lastSegment :: "string \<Rightarrow> string" where
  "lastSegment s = rev (takeWhile (\<lambda>c. c \<noteq> CHR ''.'') (rev s))"

text \<open>
  Truthiness of a possibly undefined string, \<^verbatim>\<open>a || b\<close> between two of them,
  \<^verbatim>\<open>a || 'literal'\<close>, and \<^verbatim>\<open>${a}\<close> inside a template literal.
\<close>

definition truthy :: "string option \<Rightarrow> bool" where
  "truthy a = (case a of None \<Rightarrow> False | Some s \<Rightarrow> s \<noteq> [])"

definition orElse :: "string option \<Rightarrow> string option \<Rightarrow> string option" where
  "orElse a b = (if truthy a then a else b)"

definition orDefault :: "string option \<Rightarrow> string \<Rightarrow> string" where
  "orDefault a d = (case a of None \<Rightarrow> d | Some s \<Rightarrow> if s \<noteq> [] then s else d)"

definition str :: "string option \<Rightarrow> string" where
  "str a = (case a of None \<Rightarrow> ''undefined'' | Some s \<Rightarrow> s)"

subsection \<open>Raw tool output\<close>

text \<open>
  What \<^verbatim>\<open>JSON.parse\<close> returns, read through the property accesses of the parsers. A
  property that is absent (or reached through \<^verbatim>\<open>?.\<close> from an absent object) is
  \<open>None\<close>. Every property that is present has the JSON type the tool documents for it
  (a string where the parsers call string methods, an array where they call
  \<^verbatim>\<open>forEach\<close>); a record of another shape is outside the model.
\<close>

record semgrep_result =
  check_id :: "string option"
  fingerprint :: "string option"
  path :: "string option"
  r_severity :: "string option"
  start_line :: "nat option"
  r_message :: "string option"
  extra_message :: "string option"
  metadata_category :: "string option"
  metadata_fix :: "string option"

record semgrep_output =
  s_results :: "semgrep_result list option"

record trivy_vuln =
  VulnerabilityID :: "string option"
  Severity :: "string option"
  Description :: "string option"
  Title :: "string option"
  PkgName :: "string option"
  InstalledVersion :: "string option"
  FixedVersion :: "string option"
  Status :: "string option"

record trivy_target =
  Target :: "string option"
  Vulnerabilities :: "trivy_vuln list option"

record trivy_output =
  Results :: "trivy_target list option"

record odc_vuln =
  v_name :: "string option"
  v_severity :: "string option"
  v_description :: "string option"

record odc_dependency =
  fileName :: "string option"
  vulnerabilities :: "odc_vuln list option"

record odc_output =
  dependencies :: "odc_dependency list option"

subsection \<open>\<^verbatim>\<open>WSL2Bridge\<close>: severity mapping and output parsers\<close>

definition semgrepSeverityMap :: "(string \<times> string) list" where
  "semgrepSeverityMap =
     [(''ERROR'', ''CRITICAL''), (''CRITICAL'', ''CRITICAL''), (''WARNING'', ''HIGH''),
      (''HIGH'', ''HIGH''), (''INFO'', ''MEDIUM''), (''MEDIUM'', ''MEDIUM''),
      (''INVENTORY'', ''LOW''), (''LOW'', ''LOW''), (''EXPERIMENTAL'', ''INFO'')]"

text \<open>
  \<^verbatim>\<open>severityMap[severity.toUpperCase()] || 'INFO'\<close>. The lookup in the object literal
  can only find one of its own nine keys: every property that the literal inherits has a
  lower-case letter in its name, and the key looked up has none.
\<close>

definition mapSemgrepSeverity :: "string \<Rightarrow> string" where
  "mapSemgrepSeverity sev =
     (case map_of semgrepSeverityMap (toUpperCase sev) of Some v \<Rightarrow> v | None \<Rightarrow> ''INFO'')"

definition generateSemgrepFix :: "semgrep_result \<Rightarrow> string" where
  "generateSemgrepFix r =
     (let checkId = orDefault (check_id r) '''' in
      if str_includes checkId ''sql-injection''
        then ''Use parameterized queries or prepared statements instead of string concatenation''
      else if str_includes checkId ''xss''
        then ''Sanitize user input and use proper escaping functions''
      else if str_includes checkId ''eval''
        then ''Avoid using eval(). Use safer alternatives like JSON.parse() for data''
      else if str_includes checkId ''command-injection''
        then ''Use spawn() with argument arrays instead of exec() with strings''
      else if str_includes checkId ''csrf''
        then ''Implement CSRF protection middleware like csurf''
      else if str_includes checkId ''hardcoded''
        then ''Move sensitive data to environment variables or secure configuration''
      else orDefault (metadata_fix r) ''Review and fix the identified security issue'')"

text \<open>
  The callback of \<^verbatim>\<open>data.results.forEach\<close>. \<open>None\<close> is the \<^verbatim>\<open>TypeError\<close> of
  \<^verbatim>\<open>result.path.replace\<close> on a result without a path.
\<close>

definition semgrepFinding :: "semgrep_result \<Rightarrow> finding option" where
  "semgrepFinding r =
     (case path r of
        None \<Rightarrow> None
      | Some p \<Rightarrow>
          Some \<lparr>id' = orElse (check_id r) (fingerprint r),
                tool = ''Semgrep'',
                severity = mapSemgrepSeverity (orDefault (r_severity r) ''INFO''),
                type' = orDefault (orElse (metadata_category r) (map_option lastSegment (check_id r)))
                          ''Security Issue'',
                file' = replaceAll (CHR ''/'') [backslash] (stripMountPrefix p),
                line = (case start_line r of None \<Rightarrow> 0 | Some n \<Rightarrow> n),
                description = orElse (orElse (extra_message r) (r_message r)) (check_id r),
                fix' = generateSemgrepFix r\<rparr>)"

text \<open>
  The loop of \<^verbatim>\<open>forEach\<close> inside \<^verbatim>\<open>try\<close>: the first callback that throws abandons the
  whole array, and the \<^verbatim>\<open>catch\<close> returns the empty list.
\<close>

definition collect :: "'a option list \<Rightarrow> 'a list" where
  "collect xs = (if None \<in> set xs then [] else map the xs)"

text \<open>
  \<open>decoded\<close> is \<^verbatim>\<open>JSON.parse(output)\<close>: \<open>None\<close> when it throws (or returns
  \<^verbatim>\<open>null\<close>, on which the property access throws).
\<close>

definition parseSemgrepOutput :: "semgrep_output option \<Rightarrow> finding list" where
  "parseSemgrepOutput decoded =
     (case decoded of
        None \<Rightarrow> []
      | Some data \<Rightarrow>
          (case s_results data of
             None \<Rightarrow> []
           | Some rs \<Rightarrow> collect (map semgrepFinding rs)))"

definition generateTrivyFix :: "trivy_vuln \<Rightarrow> string" where
  "generateTrivyFix vuln =
     (if truthy (FixedVersion vuln)
        then ''Update '' @ str (PkgName vuln) @ '' from '' @ str (InstalledVersion vuln)
               @ '' to '' @ str (FixedVersion vuln) @ '' or later''
      else if Status vuln = Some ''will_not_fix''
        then ''No fix available for '' @ str (PkgName vuln)
               @ ''. Consider using an alternative package''
      else ''Update '' @ str (PkgName vuln) @ '' to the latest version to resolve security issues'')"

text \<open>
  The callback of \<^verbatim>\<open>target.Vulnerabilities.forEach\<close>; \<open>None\<close> is the \<^verbatim>\<open>TypeError\<close> of
  \<^verbatim>\<open>target.Target.replace\<close> on a target without a name. The severity is
  \<^verbatim>\<open>vuln.Severity?.toUpperCase() || 'INFO'\<close>.
\<close>

definition trivyFinding :: "trivy_target \<Rightarrow> trivy_vuln \<Rightarrow> finding option" where
  "trivyFinding target vuln =
     (case Target target of
        None \<Rightarrow> None
      | Some t \<Rightarrow>
          Some \<lparr>id' = VulnerabilityID vuln,
                tool = ''Trivy'',
                severity = orDefault (map_option toUpperCase (Severity vuln)) ''INFO'',
                type' = ''Vulnerable Dependency'',
                file' = replaceAll (CHR ''/'') [backslash] (stripMountPrefix t),
                line = 0,
                description = orElse (orElse (Description vuln) (Title vuln)) (VulnerabilityID vuln),
                fix' = generateTrivyFix vuln\<rparr>)"

definition trivyTarget :: "trivy_target \<Rightarrow> finding option list" where
  "trivyTarget target =
     (case Vulnerabilities target of
        None \<Rightarrow> []
      | Some vs \<Rightarrow> map (trivyFinding target) vs)"

definition parseTrivyOutput :: "trivy_output option \<Rightarrow> finding list" where
  "parseTrivyOutput decoded =
     (case decoded of
        None \<Rightarrow> []
      | Some data \<Rightarrow>
          (case Results data of
             None \<Rightarrow> []
           | Some ts \<Rightarrow> collect (concat (map trivyTarget ts))))"

subsection \<open>\<^verbatim>\<open>ODCBridge\<close>: severity mapping and report parser\<close>

definition odcSeverityMap :: "(string \<times> string) list" where
  "odcSeverityMap =
     [(''CRITICAL'', ''CRITICAL''), (''HIGH'', ''HIGH''), (''MEDIUM'', ''MEDIUM''),
      (''LOW'', ''LOW''), (''INFO'', ''LOW''), (''INFORMATIONAL'', ''LOW'')]"

definition mapODCSeverity :: "string option \<Rightarrow> string" where
  "mapODCSeverity sev =
     (if \<not> truthy sev then ''LOW''
      else case map_of odcSeverityMap (toUpperCase (the sev)) of Some v \<Rightarrow> v | None \<Rightarrow> ''LOW'')"

definition generateODCFix :: "odc_dependency \<Rightarrow> odc_vuln \<Rightarrow> string" where
  "generateODCFix dependency vuln =
     ''Update '' @ str (fileName dependency) @ '' to address '' @ str (v_name vuln)
       @ ''. Check for newer versions or alternative packages.''"

text \<open>
  \<^verbatim>\<open>id: vuln.name || uuidv4()\<close>: a vulnerability without a name takes the next
  generated identifier. \<open>ids\<close> are the identifiers that \<^verbatim>\<open>uuidv4\<close> will return from
  now on, \<open>n\<close> counts how many have been taken.
\<close>

definition odcFinding :: "(nat \<Rightarrow> string) \<Rightarrow> odc_dependency \<Rightarrow> nat \<times> finding list \<Rightarrow> odc_vuln
    \<Rightarrow> nat \<times> finding list" where
  "odcFinding ids dependency acc vuln =
     (let n = fst acc;
          named = truthy (v_name vuln) in
      (if named then n else Suc n,
       snd acc @
        [\<lparr>id' = (if named then v_name vuln else Some (ids n)),
          tool = ''OWASP Dependency Check'',
          severity = mapODCSeverity (v_severity vuln),
          type' = ''Vulnerable Dependency'',
          file' = orDefault (fileName dependency) ''Unknown'',
          line = 0,
          description = orElse (v_description vuln) (v_name vuln),
          fix' = generateODCFix dependency vuln\<rparr>]))"

definition odcDependency :: "(nat \<Rightarrow> string) \<Rightarrow> nat \<times> finding list \<Rightarrow> odc_dependency
    \<Rightarrow> nat \<times> finding list" where
  "odcDependency ids acc dependency =
     (case vulnerabilities dependency of
        None \<Rightarrow> acc
      | Some vs \<Rightarrow> foldl (odcFinding ids dependency) acc vs)"

text \<open>
  \<open>report\<close> is the decoded \<^verbatim>\<open>dependency-check-report.json\<close> of the output directory:
  \<open>None\<close> when the file is missing, cannot be read or is not JSON, in all of which
  cases the parser returns the empty list. The result also tells how many identifiers
  were generated.
\<close>

definition parseODCOutput :: "(nat \<Rightarrow> string) \<Rightarrow> odc_output option \<Rightarrow> nat \<times> finding list" where
  "parseODCOutput ids report =
     (case report of
        None \<Rightarrow> (0, [])
      | Some data \<Rightarrow>
          (case dependencies data of
             None \<Rightarrow> (0, [])
           | Some ds \<Rightarrow> foldl (odcDependency ids) (0, []) ds))"

subsection \<open>The environment of a scan\<close>

text \<open>
  A spawned process, seen through the three things \<^verbatim>\<open>executeCommand\<close> waits for: the
  \<^verbatim>\<open>close\<close> event (milliseconds after the spawn, exit code or \<^verbatim>\<open>null\<close> after a signal,
  everything written to stdout and to stderr until then), an \<^verbatim>\<open>error\<close> event (time and
  message), or neither of them ever.
\<close>

datatype child =
    CloseEvent nat "int option" string string
  | ErrorEvent nat string
  | Never

text \<open>
  Everything outside the three services that they read: the process environment, the
  file system and \<^verbatim>\<open>path\<close> module, the folder registry, the external commands, the
  identifier generator and \<^verbatim>\<open>JSON.parse\<close> (composed with the property accesses
  described above). It does not change while a scan runs.
  \<^item> \<open>timeout\<close> is \<^verbatim>\<open>parseInt(process.env.SCAN_TIMEOUT || '300000')\<close>;
  \<^item> \<open>odcPath\<close> is \<^verbatim>\<open>process.env.ODC_PATH || 'dependency-check.bat'\<close>;
  \<^item> \<open>tempDir\<close> is \<^verbatim>\<open>process.env.TEMP_DIR || path.join(__dirname, '../../../temp')\<close>;
  \<^item> \<open>odcTempDir\<close> is the output directory named after \<^verbatim>\<open>Date.now()\<close>;
  \<^item> \<open>execPromise\<close> gives the stdout of a shell command, or \<open>None\<close> when it rejects;
  \<^item> \<open>spawn\<close> gives the behaviour of the process started for a command and arguments;
  \<^item> \<open>uuidv4 n\<close> is the \<open>n\<close>-th identifier generated in this scan;
  \<^item> \<open>mappings\<close> is the map of the \<^verbatim>\<open>folderRegistry\<close> singleton.
\<close>

record world =
  platform :: string
  MOCK_WSL2 :: "string option"
  ENABLE_ODC :: "string option"
  ODC_NVD_API_KEY :: "string option"
  timeout :: nat
  odcPath :: string
  tempDir :: string
  odcTempDir :: string
  execPromise :: "string \<Rightarrow> string option"
  spawn :: "string \<Rightarrow> string list \<Rightarrow> child"
  uuidv4 :: "nat \<Rightarrow> string"
  parseSemgrepJSON :: "string \<Rightarrow> semgrep_output option"
  parseTrivyJSON :: "string \<Rightarrow> trivy_output option"
  readODCReport :: "string \<Rightarrow> odc_output option"
  mappings :: "string \<rightharpoonup> string"
  isAbsolute :: "string \<Rightarrow> bool"
  pathJoin :: "string \<Rightarrow> string \<Rightarrow> string"
  pathResolve :: "string \<Rightarrow> string"
  basename :: "string \<Rightarrow> string"
  existsSync :: "string \<Rightarrow> bool"
  isDirectory :: "string \<Rightarrow> bool"

subsection \<open>Errors, events and the state of an orchestrator\<close>

text \<open>The three rejections of \<^verbatim>\<open>executeCommand\<close>.\<close>

datatype exec_error =
    CommandTimedOut
  | CommandFailed "int option" string
  | SpawnError string

text \<open>Every \<^verbatim>\<open>Error\<close> thrown in the three services, by its message.\<close>

datatype failure =
    TargetPathDoesNotExist "string option"
  | TargetPathIsNotADirectory string
  | WSL2IsNotAvailable
  | ODCIsNotAvailable
  | TypeError

text \<open>The first argument of \<^verbatim>\<open>sendProgress\<close>, by its template.\<close>

datatype message =
    InitializingScan
  | ResolvedTargetPath "string option"
  | StartingScan string
  | CompletedScan string
  | ErrorIn string failure
  | FoundVulnerability string string
  | FoundDependencyVulnerability string
  | FoundODCVulnerability string
  | ScanCompletedSuccessfully
  | ScanFailed failure

text \<open>
  The objects built by \<^verbatim>\<open>sendProgress\<close> (current tool, \<^verbatim>\<open>progressPercent\<close>, message),
  \<^verbatim>\<open>sendVulnerability\<close> (vulnerability, current tool, \<^verbatim>\<open>totalFound\<close>) and
  \<^verbatim>\<open>sendCompletion\<close> (\<^verbatim>\<open>resultCount\<close>), without scan id and timestamp.
\<close>

datatype event =
    ProgressEvent "string option" int message
  | VulnerabilityEvent finding "string option" nat
  | CompleteEvent nat

datatype proc_action = Spawn string "string list" | KillSIGTERM

text \<open>
  The fields of a \<^verbatim>\<open>ScanOrchestrator\<close> and of its two bridges that change during a
  scan, with three histories: the events built for the WebSocket client (they reach it
  when one is registered for the scan and open), the processes spawned and killed, and
  the number of identifiers generated.
\<close>

record orchestrator =
  results :: "finding list"
  progress :: rat
  currentTool :: "string option"
  isWSL2Available :: "bool option"
  isODCAvailable :: "bool option"
  emitted :: "event list"
  actions :: "proc_action list"
  uuidCount :: nat

text \<open>The constructor.\<close>

definition newOrchestrator :: orchestrator where
  "newOrchestrator = \<lparr>results = [], progress = 0, currentTool = None,
     isWSL2Available = None, isODCAvailable = None, emitted = [], actions = [],
     uuidCount = 0\<rparr>"

text \<open>\<^verbatim>\<open>Math.round\<close>: the nearest integer, halves upwards.\<close>

definition Math_round :: "rat \<Rightarrow> int" where
  "Math_round x = \<lfloor>x + 1 / 2\<rfloor>"

definition sendProgress :: "message \<Rightarrow> rat \<Rightarrow> orchestrator \<Rightarrow> orchestrator" where
  "sendProgress msg percent st =
     st\<lparr>progress := percent,
        emitted := emitted st @ [ProgressEvent (currentTool st) (Math_round percent) msg]\<rparr>"

definition sendVulnerability :: "finding \<Rightarrow> orchestrator \<Rightarrow> orchestrator" where
  "sendVulnerability vulnerability st =
     st\<lparr>emitted := emitted st
        @ [VulnerabilityEvent vulnerability (currentTool st) (length (results st) + 1)]\<rparr>"

definition sendCompletion :: "orchestrator \<Rightarrow> orchestrator" where
  "sendCompletion st = st\<lparr>emitted := emitted st @ [CompleteEvent (length (results st))]\<rparr>"

text \<open>The next \<open>k\<close> identifiers, and the state after generating them.\<close>

definition nextIds :: "world \<Rightarrow> orchestrator \<Rightarrow> nat \<Rightarrow> string" where
  "nextIds w st i = uuidv4 w (uuidCount st + i)"

definition takeIds :: "nat \<Rightarrow> orchestrator \<Rightarrow> orchestrator" where
  "takeIds k st = st\<lparr>uuidCount := uuidCount st + k\<rparr>"

subsection \<open>\<^verbatim>\<open>executeCommand\<close>\<close>

text \<open>
  The promise settles at the first of three callbacks. The timer fires \<open>timeout\<close>
  milliseconds after the spawn: it sets \<^verbatim>\<open>timedOut\<close>, sends \<^verbatim>\<open>SIGTERM\<close> and rejects. An
  \<^verbatim>\<open>error\<close> event before that rejects with the error. A \<^verbatim>\<open>close\<close> event before that
  resolves with stdout when the exit code is 0 or stdout is not empty, and rejects
  otherwise. A \<^verbatim>\<open>close\<close> after the timer returns at once (\<^verbatim>\<open>if (timedOut) return\<close>).
  When the timer and an event are due in the same millisecond the timer is taken first.
  Both bridges have this function (the one of \<^verbatim>\<open>ODCBridge\<close> spawns through a shell).
\<close>

definition settle :: "nat \<Rightarrow> child \<Rightarrow> (exec_error + string) \<times> bool" where
  "settle limit c =
     (case c of
        CloseEvent t code output errorOutput \<Rightarrow>
          if t < limit
          then (if code = Some 0 then Inr output
                else if output \<noteq> [] then Inr output
                else Inl (CommandFailed code errorOutput), False)
          else (Inl CommandTimedOut, True)
      | ErrorEvent t e \<Rightarrow>
          if t < limit then (Inl (SpawnError e), False) else (Inl CommandTimedOut, True)
      | Never \<Rightarrow> (Inl CommandTimedOut, True))"

definition executeCommand :: "world \<Rightarrow> string \<Rightarrow> string list \<Rightarrow> orchestrator
    \<Rightarrow> (exec_error + string) \<times> orchestrator" where
  "executeCommand w command args st =
     (let (outcome, killed) = settle (timeout w) (spawn w command args)
      in (outcome,
          st\<lparr>actions := actions st @ Spawn command args # (if killed then [KillSIGTERM] else [])\<rparr>))"

subsection \<open>\<^verbatim>\<open>WSL2Bridge\<close>\<close>

definition wsl2_isAvailable :: "world \<Rightarrow> orchestrator \<Rightarrow> bool \<times> orchestrator" where
  "wsl2_isAvailable w st =
     (case isWSL2Available st of
        Some cached \<Rightarrow> (cached, st)
      | None \<Rightarrow>
          if platform w \<noteq> ''win32'' then (False, st\<lparr>isWSL2Available := Some False\<rparr>)
          else (case execPromise w ''wsl --status'' of
                  Some stdout \<Rightarrow>
                    (let cleanOutput = trim (filter (\<lambda>c. c \<noteq> CHR 0x00) stdout);
                         found = (str_includes cleanOutput ''Version: 2''
                                  \<or> str_includes cleanOutput ''WSL 2''
                                  \<or> str_includes cleanOutput ''Default Version: 2'')
                     in (found, st\<lparr>isWSL2Available := Some found\<rparr>))
                | None \<Rightarrow> (False, st\<lparr>isWSL2Available := Some False\<rparr>)))"

text \<open>
  \<^verbatim>\<open>convertToWSLPath\<close> of \<^verbatim>\<open>wsl2Bridge.js\<close>: the \<^verbatim>\<open>wslpath\<close> utility, and the manual
  reconstruction when it fails. (The instrumented copy of the bridge adds a cache, a
  warm-up and a direct mapping in front of it; they change the path handed to the tool
  and nothing else.) The methods of the two bridges carry the prefixes \<open>wsl2_\<close> and
  \<open>odc_\<close>, since the orchestrator has methods of the same names.
\<close>

definition convertToWSLPath :: "world \<Rightarrow> string \<Rightarrow> string" where
  "convertToWSLPath w windowsPath =
     (let escapedPath = replaceAll backslash [backslash, backslash] windowsPath
      in case execPromise w (''wsl wslpath '' @ [CHR 0x22] @ escapedPath @ [CHR 0x22]) of
           Some stdout \<Rightarrow> trim stdout
         | None \<Rightarrow>
             (let drive = toLowerCase (take 1 windowsPath);
                  restPath = replaceAll backslash ''/'' (drop 3 windowsPath)
              in ''/mnt/'' @ drive @ ''/'' @ restPath))"

definition semgrepArgs :: "string \<Rightarrow> string list" where
  "semgrepArgs wslPath =
     [''semgrep'', ''--config=auto'', ''--json'', ''--no-git-ignore'', ''--timeout=60'', wslPath]"

definition trivyArgs :: "string \<Rightarrow> string list" where
  "trivyArgs wslPath =
     [''trivy'', ''fs'', ''--format'', ''json'', ''--severity'', ''CRITICAL,HIGH,MEDIUM,LOW'',
      ''--timeout'', ''5m'', wslPath]"

text \<open>
  \<^verbatim>\<open>WSL2Bridge.runSemgrep\<close> and \<^verbatim>\<open>runTrivy\<close>: the only throw is the one before the
  \<^verbatim>\<open>try\<close>; a rejection of \<^verbatim>\<open>executeCommand\<close> is caught and becomes the empty list.
\<close>

definition wsl2_runSemgrep :: "world \<Rightarrow> string \<Rightarrow> orchestrator
    \<Rightarrow> (failure + finding list) \<times> orchestrator" where
  "wsl2_runSemgrep w targetPath st =
     (let (available, st1) = wsl2_isAvailable w st
      in if \<not> available then (Inl WSL2IsNotAvailable, st1)
         else (let wslPath = convertToWSLPath w targetPath;
                   (result, st2) = executeCommand w ''wsl'' (semgrepArgs wslPath) st1
               in case result of
                    Inr output \<Rightarrow> (Inr (parseSemgrepOutput (parseSemgrepJSON w output)), st2)
                  | Inl error \<Rightarrow> (Inr [], st2)))"

definition wsl2_runTrivy :: "world \<Rightarrow> string \<Rightarrow> orchestrator
    \<Rightarrow> (failure + finding list) \<times> orchestrator" where
  "wsl2_runTrivy w targetPath st =
     (let (available, st1) = wsl2_isAvailable w st
      in if \<not> available then (Inl WSL2IsNotAvailable, st1)
         else (let wslPath = convertToWSLPath w targetPath;
                   (result, st2) = executeCommand w ''wsl'' (trivyArgs wslPath) st1
               in case result of
                    Inr output \<Rightarrow> (Inr (parseTrivyOutput (parseTrivyJSON w output)), st2)
                  | Inl error \<Rightarrow> (Inr [], st2)))"

subsection \<open>\<^verbatim>\<open>ODCBridge\<close>\<close>

definition odc_isAvailable :: "world \<Rightarrow> orchestrator \<Rightarrow> bool \<times> orchestrator" where
  "odc_isAvailable w st =
     (case isODCAvailable st of
        Some cached \<Rightarrow> (cached, st)
      | None \<Rightarrow>
          if platform w \<noteq> ''win32'' then (False, st\<lparr>isODCAvailable := Some False\<rparr>)
          else (let (result, st1) = executeCommand w (odcPath w) [''--version''] st
                in case result of
                     Inr output \<Rightarrow>
                       (let found = str_includes (toLowerCase output) ''dependency-check''
                        in (found, st1\<lparr>isODCAvailable := Some found\<rparr>))
                   | Inl error \<Rightarrow> (False, st1\<lparr>isODCAvailable := Some False\<rparr>)))"

definition odcArgs :: "world \<Rightarrow> string \<Rightarrow> string list" where
  "odcArgs w targetPath =
     [''--project'', (if basename w targetPath \<noteq> [] then basename w targetPath else ''SecurityScan''),
      ''--scan'', targetPath, ''--out'', odcTempDir w, ''--format'', ''JSON'', ''--enableRetired'']
     @ (if truthy (ODC_NVD_API_KEY w) then [''--nvdApiKey'', str (ODC_NVD_API_KEY w)] else [])"

text \<open>
  \<^verbatim>\<open>ODCBridge.runODC\<close>. Everything after the availability check is inside \<^verbatim>\<open>try\<close>, and
  the \<^verbatim>\<open>catch\<close> returns the empty list: that is the result for a missing target, for a
  rejected command, and likewise if creating the output directory threw (a case the
  model does not list).
\<close>

definition odc_runODC :: "world \<Rightarrow> string \<Rightarrow> orchestrator
    \<Rightarrow> (failure + finding list) \<times> orchestrator" where
  "odc_runODC w targetPath st =
     (let (available, st1) = odc_isAvailable w st
      in if \<not> available then (Inl ODCIsNotAvailable, st1)
         else if \<not> existsSync w targetPath then (Inr [], st1)
         else (let (result, st2) = executeCommand w (odcPath w) (odcArgs w targetPath) st1
               in case result of
                    Inl error \<Rightarrow> (Inr [], st2)
                  | Inr output \<Rightarrow>
                      (let (k, found) = parseODCOutput (nextIds w st2) (readODCReport w (odcTempDir w))
                       in (Inr found, takeIds k st2))))"

subsection \<open>\<^verbatim>\<open>ScanOrchestrator\<close>: mock generators\<close>

definition mock :: "string \<Rightarrow> string \<Rightarrow> string \<Rightarrow> string \<Rightarrow> string \<Rightarrow> nat \<Rightarrow> string \<Rightarrow> string
    \<Rightarrow> finding" where
  "mock i t sev ty f l d fx =
     \<lparr>id' = Some i, tool = t, severity = sev, type' = ty, file' = f, line = l,
      description = Some d, fix' = fx\<rparr>"

definition getMockedSemgrepResults :: "(nat \<Rightarrow> string) \<Rightarrow> finding list" where
  "getMockedSemgrepResults ids =
     [mock (ids 0) ''Semgrep'' ''HIGH'' ''SQL Injection'' ''src/database/queries.js'' 42
        ''User input is concatenated directly into SQL query without proper sanitization''
        ''Use parameterized queries or prepared statements instead of string concatenation'',
      mock (ids 1) ''Semgrep'' ''MEDIUM'' ''Hardcoded Secret'' ''config/database.js'' 15
        ''API key appears to be hardcoded in the source code''
        ''Move sensitive data to environment variables or secure configuration management'']"

definition getMockedTrivyResults :: "(nat \<Rightarrow> string) \<Rightarrow> finding list" where
  "getMockedTrivyResults ids =
     [mock (ids 0) ''Trivy'' ''CRITICAL'' ''Vulnerable Dependency'' ''package.json'' 25
        ''lodash@4.17.11 has known security vulnerabilities (CVE-2020-8203)''
        ''Update lodash to version 4.17.21 or later'',
      mock (ids 1) ''Trivy'' ''HIGH'' ''Outdated Package'' ''package-lock.json'' 150
        ''express@4.16.0 has multiple security issues''
        ''Update express to the latest version (4.18.2 or later)'']"

definition getMockedODCResults :: "(nat \<Rightarrow> string) \<Rightarrow> finding list" where
  "getMockedODCResults ids =
     [mock (ids 0) ''OWASP Dependency Check'' ''LOW'' ''License Risk'' ''dependencies.json'' 0
        ''GPL licensed dependency detected which may have legal implications''
        ''Review license compatibility with your project requirements'']"

text \<open>The arrays \<^verbatim>\<open>vulnerabilities\<close> of the three real-time generators.\<close>

definition semgrepVulnerabilities :: "(nat \<Rightarrow> string) \<Rightarrow> finding list" where
  "semgrepVulnerabilities ids =
     [mock (ids 0) ''Semgrep'' ''CRITICAL'' ''SQL Injection'' ''vulnerable-test-app/index.js'' 26
        ''Direct string concatenation in SQL query allows SQL injection attacks''
        ''Use parameterized queries or prepared statements instead of string concatenation'',
      mock (ids 1) ''Semgrep'' ''CRITICAL'' ''Command Injection'' ''vulnerable-test-app/index.js'' 38
        ''User input directly executed in shell command without sanitization''
        ''Validate and sanitize user input before using in shell commands, or use safer alternatives'',
      mock (ids 2) ''Semgrep'' ''HIGH'' ''Cross-Site Scripting (XSS)'' ''vulnerable-test-app/index.js'' 70
        ''User input directly embedded in HTML without encoding''
        ''Encode user input before embedding in HTML or use templating engines with auto-escaping'',
      mock (ids 3) ''Semgrep'' ''HIGH'' ''Path Traversal'' ''vulnerable-test-app/index.js'' 51
        ''File path constructed from user input without validation''
        ''Validate file paths and restrict access to specific directories'',
      mock (ids 4) ''Semgrep'' ''HIGH'' ''Hardcoded Secrets'' ''vulnerable-test-app/index.js'' 11
        ''Database credentials hardcoded in source code''
        ''Use environment variables or secure configuration management for sensitive data'',
      mock (ids 5) ''Semgrep'' ''CRITICAL'' ''Code Injection (eval)'' ''vulnerable-test-app/index.js'' 119
        ''User input passed directly to eval() function''
        ''Never use eval() with user input. Use JSON.parse() for data or specific parsers'',
      mock (ids 6) ''Semgrep'' ''MEDIUM'' ''Weak Cryptography'' ''vulnerable-test-app/index.js'' 83
        ''MD5 hash used for password hashing (cryptographically broken)''
        ''Use bcrypt, scrypt, or Argon2 for password hashing'',
      mock (ids 7) ''Semgrep'' ''MEDIUM'' ''Information Disclosure'' ''vulnerable-test-app/index.js'' 104
        ''Sensitive information exposed in debug endpoint''
        ''Remove debug endpoints from production or secure them properly'']"

definition trivyVulnerabilities :: "(nat \<Rightarrow> string) \<Rightarrow> finding list" where
  "trivyVulnerabilities ids =
     [mock (ids 0) ''Trivy'' ''HIGH'' ''CVE-2021-3807'' ''package.json'' 1
        ''ansi-regex: Regular Expression Denial of Service (ReDoS)''
        ''Update to ansi-regex version 6.0.1 or later'',
      mock (ids 1) ''Trivy'' ''CRITICAL'' ''CVE-2020-8203'' ''package.json'' 1
        ''lodash: Prototype Pollution vulnerability''
        ''Update to lodash version 4.17.12 or later'',
      mock (ids 2) ''Trivy'' ''HIGH'' ''CVE-2022-0155'' ''package.json'' 1
        ''follow-redirects: Exposure of Sensitive Information vulnerability''
        ''Update to follow-redirects version 1.14.7 or later'',
      mock (ids 3) ''Trivy'' ''MEDIUM'' ''CVE-2021-23337'' ''package.json'' 1
        ''lodash: Command Injection vulnerability''
        ''Update to lodash version 4.17.21 or later'',
      mock (ids 4) ''Trivy'' ''HIGH'' ''CVE-2022-25883'' ''package.json'' 1
        ''semver: Regular Expression Denial of Service (ReDoS)''
        ''Update to semver version 7.5.2 or later'']"

definition odcVulnerabilities :: "(nat \<Rightarrow> string) \<Rightarrow> finding list" where
  "odcVulnerabilities ids =
     [mock (ids 0) ''OWASP Dependency Check'' ''MEDIUM'' ''CVE-2021-44228'' ''pom.xml'' 45
        ''Apache Log4j2 Remote Code Execution (Log4Shell)''
        ''Update Log4j2 to version 2.17.1 or later'',
      mock (ids 1) ''OWASP Dependency Check'' ''LOW'' ''License Risk'' ''dependencies.json'' 0
        ''GPL licensed dependency detected which may have legal implications''
        ''Review license compatibility with your project requirements'']"

text \<open>
  \<^verbatim>\<open>(completedTools / totalTools) * 100\<close> in \<^verbatim>\<open>startScan\<close> and
  \<^verbatim>\<open>((i + 1) / vulnerabilities.length) * 100\<close> in the generators. The source computes
  in double precision, the model in exact arithmetic.
\<close>

definition percentOf :: "nat \<Rightarrow> nat \<Rightarrow> rat" where
  "percentOf k n = of_nat k / of_nat n * 100"

text \<open>
  The loop shared by the three real-time generators, from index \<open>i\<close> on: each
  vulnerability is sent, pushed to the local array, and followed by a progress event
  for \<open>i + 1\<close> of the \<open>n\<close> vulnerabilities. The delays between the discoveries are
  not modelled.
\<close>

fun discover :: "(finding \<Rightarrow> message) \<Rightarrow> nat \<Rightarrow> nat \<Rightarrow> finding list \<Rightarrow> orchestrator
    \<Rightarrow> orchestrator" where
  "discover msg n i [] st = st"
| "discover msg n i (vuln # vulns) st =
     discover msg n (Suc i) vulns
       (sendProgress (msg vuln) (percentOf (Suc i) n) (sendVulnerability vuln st))"

definition getMockedSemgrepResultsRealTime :: "world \<Rightarrow> orchestrator
    \<Rightarrow> (failure + finding list) \<times> orchestrator" where
  "getMockedSemgrepResultsRealTime w st =
     (let vulnerabilities = semgrepVulnerabilities (nextIds w st)
      in (Inr vulnerabilities,
          discover (\<lambda>vuln. FoundVulnerability (severity vuln) (type' vuln))
            (length vulnerabilities) 0 vulnerabilities (takeIds 8 st)))"

definition getMockedTrivyResultsRealTime :: "world \<Rightarrow> orchestrator
    \<Rightarrow> (failure + finding list) \<times> orchestrator" where
  "getMockedTrivyResultsRealTime w st =
     (let vulnerabilities = trivyVulnerabilities (nextIds w st)
      in (Inr vulnerabilities,
          discover (\<lambda>vuln. FoundDependencyVulnerability (type' vuln))
            (length vulnerabilities) 0 vulnerabilities (takeIds 5 st)))"

definition getMockedODCResultsRealTime :: "world \<Rightarrow> orchestrator
    \<Rightarrow> (failure + finding list) \<times> orchestrator" where
  "getMockedODCResultsRealTime w st =
     (let vulnerabilities = odcVulnerabilities (nextIds w st)
      in (Inr vulnerabilities,
          discover (\<lambda>vuln. FoundODCVulnerability (type' vuln))
            (length vulnerabilities) 0 vulnerabilities (takeIds 2 st)))"

subsection \<open>\<^verbatim>\<open>ScanOrchestrator\<close>: running one tool\<close>

definition runSemgrep :: "world \<Rightarrow> string \<Rightarrow> orchestrator
    \<Rightarrow> (failure + finding list) \<times> orchestrator" where
  "runSemgrep w targetPath st =
     (let (isWSL2Avail, st1) = wsl2_isAvailable w st
      in if MOCK_WSL2 w = Some ''true''
           then (Inr (getMockedSemgrepResults (nextIds w st1)), takeIds 2 st1)
         else if \<not> isWSL2Avail then (Inr [], st1)
         else wsl2_runSemgrep w targetPath st1)"

definition runTrivy :: "world \<Rightarrow> string \<Rightarrow> orchestrator
    \<Rightarrow> (failure + finding list) \<times> orchestrator" where
  "runTrivy w targetPath st =
     (let (isWSL2Avail, st1) = wsl2_isAvailable w st
      in if MOCK_WSL2 w = Some ''true''
           then (Inr (getMockedTrivyResults (nextIds w st1)), takeIds 2 st1)
         else if \<not> isWSL2Avail then (Inr [], st1)
         else wsl2_runTrivy w targetPath st1)"

definition runODC :: "world \<Rightarrow> string \<Rightarrow> orchestrator
    \<Rightarrow> (failure + finding list) \<times> orchestrator" where
  "runODC w targetPath st =
     (let (isODCAvail, st1) = odc_isAvailable w st
      in if ENABLE_ODC w \<noteq> Some ''true'' then (Inr [], st1)
         else if \<not> isODCAvail
           then (Inr (getMockedODCResults (nextIds w st1)), takeIds 1 st1)
         else odc_runODC w targetPath st1)"

definition runSemgrepWithRealTime :: "world \<Rightarrow> string \<Rightarrow> orchestrator
    \<Rightarrow> (failure + finding list) \<times> orchestrator" where
  "runSemgrepWithRealTime w targetPath st =
     (let (isWSL2Avail, st1) = wsl2_isAvailable w st
      in if MOCK_WSL2 w = Some ''true'' then getMockedSemgrepResultsRealTime w st1
         else if \<not> isWSL2Avail then (Inr [], st1)
         else runSemgrep w targetPath st1)"

definition runTrivyWithRealTime :: "world \<Rightarrow> string \<Rightarrow> orchestrator
    \<Rightarrow> (failure + finding list) \<times> orchestrator" where
  "runTrivyWithRealTime w targetPath st =
     (let (isWSL2Avail, st1) = wsl2_isAvailable w st
      in if MOCK_WSL2 w = Some ''true'' then getMockedTrivyResultsRealTime w st1
         else if \<not> isWSL2Avail then (Inr [], st1)
         else runTrivy w targetPath st1)"

definition runODCWithRealTime :: "world \<Rightarrow> string \<Rightarrow> orchestrator
    \<Rightarrow> (failure + finding list) \<times> orchestrator" where
  "runODCWithRealTime w targetPath st =
     (let (isODCAvail, st1) = odc_isAvailable w st
      in if ENABLE_ODC w \<noteq> Some ''true'' then (Inr [], st1)
         else if \<not> isODCAvail then getMockedODCResultsRealTime w st1
         else runODC w targetPath st1)"


definition switchTool :: "world \<Rightarrow> string \<Rightarrow> string \<Rightarrow> orchestrator
    \<Rightarrow> (failure + finding list) \<times> orchestrator" where
  "switchTool w toolName targetPath st =
     (if toolName = ''Semgrep'' then runSemgrepWithRealTime w targetPath st
      else if toolName = ''Trivy'' then runTrivyWithRealTime w targetPath st
      else if toolName = ''OWASP Dependency Check'' then runODCWithRealTime w targetPath st
      else (Inr [], st))"

subsection \<open>\<^verbatim>\<open>FolderRegistry\<close> and \<^verbatim>\<open>ScanOrchestrator.resolveTargetPath\<close>\<close>

definition isDirectScan :: "world \<Rightarrow> string \<Rightarrow> bool" where
  "isDirectScan w scanId = (mappings w scanId \<noteq> None)"

text \<open>\<^verbatim>\<open>this.mappings.get(scanId) || null\<close>\<close>

definition getPath :: "world \<Rightarrow> string \<Rightarrow> string option" where
  "getPath w scanId = (if truthy (mappings w scanId) then mappings w scanId else None)"

definition isHex :: "char \<Rightarrow> bool" where
  "isHex c = (c \<in> set ''0123456789abcdefABCDEF'')"

text \<open>
  \<^verbatim>\<open>/^[0-9a-f]{8}-[0-9a-f]{4}-[0-9a-f]{4}-[0-9a-f]{4}-[0-9a-f]{12}$/i\<close>
\<close>

definition uuidRegex :: "string \<Rightarrow> bool" where
  "uuidRegex s =
     (length s = 36
      \<and> list_all isHex (take 8 s) \<and> s ! 8 = CHR ''-''
      \<and> list_all isHex (take 4 (drop 9 s)) \<and> s ! 13 = CHR ''-''
      \<and> list_all isHex (take 4 (drop 14 s)) \<and> s ! 18 = CHR ''-''
      \<and> list_all isHex (take 4 (drop 19 s)) \<and> s ! 23 = CHR ''-''
      \<and> list_all isHex (drop 24 s))"

definition resolveTargetPath :: "world \<Rightarrow> string \<Rightarrow> string option" where
  "resolveTargetPath w targetId =
     (if isDirectScan w targetId then getPath w targetId
      else if isAbsolute w targetId then Some targetId
      else if uuidRegex targetId then Some (pathJoin w (tempDir w) targetId)
      else if str_includes targetId ''/'' \<or> str_includes targetId [backslash]
        then Some (pathResolve w targetId)
      else (let tempPath = pathJoin w (tempDir w) targetId;
                localPath = pathResolve w targetId
            in if existsSync w tempPath then Some tempPath
               else if existsSync w localPath then Some localPath
               else Some tempPath))"

subsection \<open>\<^verbatim>\<open>ScanOrchestrator.startScan\<close>\<close>

text \<open>An entry of the local array \<^verbatim>\<open>toolResults\<close>, without the execution time.\<close>

datatype tool_note = ResultCount string nat | ErrorNote string failure

text \<open>
  The two checks between resolution and the loop; \<^verbatim>\<open>fs.existsSync(null)\<close> is false.
\<close>

definition validateTarget :: "world \<Rightarrow> string option \<Rightarrow> failure + string" where
  "validateTarget w targetPath =
     (case targetPath of
        None \<Rightarrow> Inl (TargetPathDoesNotExist None)
      | Some p \<Rightarrow>
          if \<not> existsSync w p then Inl (TargetPathDoesNotExist (Some p))
          else if \<not> isDirectory w p then Inl (TargetPathIsNotADirectory p)
          else Inr p)"

text \<open>
  One iteration of \<^verbatim>\<open>for (const tool of selectedTools)\<close> (\<open>toolName\<close> is \<^verbatim>\<open>tool\<close>). The accumulator holds the
  local variables \<^verbatim>\<open>completedTools\<close> and \<^verbatim>\<open>toolResults\<close> and the orchestrator. The
  \<open>Inr\<close> branch is the rest of the \<^verbatim>\<open>try\<close> block, the \<open>Inl\<close> branch is the
  \<^verbatim>\<open>catch\<close> block.
\<close>

definition toolIteration :: "world \<Rightarrow> string \<Rightarrow> nat \<Rightarrow> nat \<times> tool_note list \<times> orchestrator
    \<Rightarrow> string \<Rightarrow> nat \<times> tool_note list \<times> orchestrator" where
  "toolIteration w targetPath totalTools acc toolName =
     (let (completedTools, toolResults, st) = acc;
          st1 = st\<lparr>currentTool := Some toolName\<rparr>;
          toolProgress = percentOf completedTools totalTools;
          st2 = sendProgress (StartingScan toolName) toolProgress st1;
          (outcome, st3) = switchTool w toolName targetPath st2
      in case outcome of
           Inr currentToolResults \<Rightarrow>
             (let st4 = st3\<lparr>results := results st3 @ currentToolResults\<rparr>;
                  newProgress = percentOf (Suc completedTools) totalTools
              in (Suc completedTools,
                  toolResults @ [ResultCount toolName (length currentToolResults)],
                  sendProgress (CompletedScan toolName) newProgress st4))
         | Inl error \<Rightarrow>
             (completedTools,
              toolResults @ [ErrorNote toolName error],
              sendProgress (ErrorIn toolName error) (progress st3) st3))"

text \<open>
  \<^verbatim>\<open>startScan\<close> returns the deduplicated results or rethrows; the model also returns
  \<^verbatim>\<open>toolResults\<close>, which the source logs, and the orchestrator. After the call to
  \<^verbatim>\<open>deduplicateResults\<close> only the length of \<^verbatim>\<open>this.results\<close> is read, so the merged
  tool names are not written back into the field \<open>results\<close>.
\<close>

definition startScan :: "world \<Rightarrow> string \<Rightarrow> string list \<Rightarrow> orchestrator
    \<Rightarrow> (failure + finding list) \<times> tool_note list \<times> orchestrator" where
  "startScan w targetId selectedTools st =
     (let st1 = sendProgress InitializingScan 0 st;
          targetPath = resolveTargetPath w targetId;
          st2 = sendProgress (ResolvedTargetPath targetPath) 5 st1
      in case validateTarget w targetPath of
           Inl error \<Rightarrow> (Inl error, [], sendProgress (ScanFailed error) (progress st2) st2)
         | Inr p \<Rightarrow>
             (let (completedTools, toolResults, st3) =
                    foldl (toolIteration w p (length selectedTools)) (0, [], st2) selectedTools;
                  st4 = sendProgress ScanCompletedSuccessfully 100 st3;
                  finalResults = deduplicateResults (results st4)
              in (Inr finalResults, toolResults, sendCompletion st4)))"

subsection \<open>The route \<^verbatim>\<open>POST /api/scan\<close>\<close>

datatype status = running | completed | failed

record session =
  targetId :: string
  actualTargetId :: "string option"
  selectedTools :: "string list"
  status :: status
  sessionResults :: "finding list option"
  sessionError :: "failure option"
  toolResults :: "tool_note list"
  orchestratorState :: orchestrator

datatype bad_request = TargetIdRequired | ToolRequired

text \<open>
  The session stored under the scan id, as it is once the promise of \<^verbatim>\<open>startScan\<close> has
  settled: \<^verbatim>\<open>then\<close> sets the status \<^verbatim>\<open>completed\<close> and the results, \<^verbatim>\<open>catch\<close> sets
  \<^verbatim>\<open>failed\<close> and the error. A registered target is replaced by its registered path
  before the call; when the registry holds an empty path for it the call receives
  \<^verbatim>\<open>null\<close>, and \<^verbatim>\<open>startScan\<close> fails with the \<^verbatim>\<open>TypeError\<close> of \<^verbatim>\<open>path.isAbsolute(null)\<close>
  after its first progress event. The fields \<open>toolResults\<close> and \<open>orchestratorState\<close>
  expose what \<^verbatim>\<open>startScan\<close> logged and emitted.
\<close>

definition postScan :: "world \<Rightarrow> string \<Rightarrow> string list \<Rightarrow> bad_request + session" where
  "postScan w tid tools =
     (if tid = [] then Inl TargetIdRequired
      else if tools = [] then Inl ToolRequired
      else (let actual = (if isDirectScan w tid then getPath w tid else Some tid);
                created = \<lparr>targetId = tid, actualTargetId = actual, selectedTools = tools,
                           status = running, sessionResults = None, sessionError = None,
                           toolResults = [], orchestratorState = newOrchestrator\<rparr>
            in case actual of
                 None \<Rightarrow>
                   (let st1 = sendProgress InitializingScan 0 newOrchestrator
                    in Inr (created\<lparr>status := failed, sessionError := Some TypeError,
                          orchestratorState := sendProgress (ScanFailed TypeError) (progress st1) st1\<rparr>))
               | Some a \<Rightarrow>
                   (case startScan w a tools newOrchestrator of
                      (Inr found, notes, st) \<Rightarrow>
                        Inr (created\<lparr>status := completed, sessionResults := Some found,
                               toolResults := notes, orchestratorState := st\<rparr>)
                    | (Inl error, notes, st) \<Rightarrow>
                        Inr (created\<lparr>status := failed, sessionError := Some error,
                               toolResults := notes, orchestratorState := st\<rparr>))))"

subsection \<open>Vocabulary of the properties\<close>

definition canonicalSeverities :: "string list" where
  "canonicalSeverities = [''CRITICAL'', ''HIGH'', ''MEDIUM'', ''LOW'', ''INFO'']"

text \<open>The \<^verbatim>\<open>progressPercent\<close> values of the progress events of a history, in order.\<close>

fun percents :: "event list \<Rightarrow> int list" where
  "percents [] = []"
| "percents (ProgressEvent t p m # es) = p # percents es"
| "percents (e # es) = percents es"







subsection \<open>Test data\<close>

text \<open>
  A Windows host with WSL 2 on which the Semgrep process never ends and the Trivy
  process exits with code 0 after 1.2 seconds, reporting one vulnerability of severity
  \<^verbatim>\<open>UNKNOWN\<close>. The directories are \<^verbatim>\<open>/srv/project\<close> (registered for a direct scan
  as \<^verbatim>\<open>folder-1\<close>) and \<^verbatim>\<open>/app/temp/docs/api\<close> in the staging area;
  \<^verbatim>\<open>/srv/notes.txt\<close> is a file.
\<close>

definition trivyReport :: trivy_output where
  "trivyReport =
     \<lparr>Results = Some
        [\<lparr>Target = Some ''package-lock.json'',
          Vulnerabilities = Some
            [\<lparr>VulnerabilityID = Some ''CVE-2020-8203'', Severity = Some ''UNKNOWN'',
              Description = None, Title = Some ''prototype pollution'',
              PkgName = Some ''lodash'', InstalledVersion = Some ''4.17.11'',
              FixedVersion = Some ''4.17.19'', Status = Some ''fixed''\<rparr>]\<rparr>]\<rparr>"

definition hostWorld :: world where
  "hostWorld =
     \<lparr>platform = ''win32'', MOCK_WSL2 = None, ENABLE_ODC = None, ODC_NVD_API_KEY = None,
      timeout = 300000, odcPath = ''dependency-check.bat'', tempDir = ''/app/temp'',
      odcTempDir = ''temp/odc-1'',
      execPromise = (\<lambda>cmd. if cmd = ''wsl --status'' then Some ''Default Version: 2''
                           else Some ''/mnt/c/srv/project''),
      spawn = (\<lambda>cmd args. if ''semgrep'' \<in> set args then Never
                           else CloseEvent 1200 (Some 0) ''{}'' ''''),
      uuidv4 = (\<lambda>n. ''id-'' @ show_nat n),
      parseSemgrepJSON = (\<lambda>output. None),
      parseTrivyJSON = (\<lambda>output. Some trivyReport),
      readODCReport = (\<lambda>dir. None),
      mappings = [''folder-1'' \<mapsto> ''/srv/project''],
      isAbsolute = (\<lambda>p. startsWith p ''/''),
      pathJoin = (\<lambda>a b. a @ ''/'' @ b),
      pathResolve = (\<lambda>p. ''/app/backend/'' @ p),
      basename = (\<lambda>p. rev (takeWhile (\<lambda>c. c \<noteq> CHR ''/'') (rev p))),
      existsSync = (\<lambda>p. p \<in> set [''/srv/project'', ''/app/temp/docs/api'', ''/srv/notes.txt'']),
      isDirectory = (\<lambda>p. p \<in> set [''/srv/project'', ''/app/temp/docs/api''])\<rparr>"



text \<open>Two findings used as test data: different (file, line, type) triples, one key.\<close>

definition collideA :: finding where
  "collideA = \<lparr>id' = Some ''r1'', tool = ''Semgrep'', severity = ''HIGH'', type' = ''x'',
     file' = ''a:1'', line = 2, description = Some ''first'', fix' = ''f''\<rparr>"

definition collideB :: finding where
  "collideB = \<lparr>id' = Some ''r2'', tool = ''Trivy'', severity = ''LOW'', type' = ''2:x'',
     file' = ''a'', line = 1, description = Some ''second'', fix' = ''g''\<rparr>"

section \<open>Properties\<close>

subsection \<open>Deduplication\<close>

lemma dedupKey_mergeTool [simp]: "dedupKey (mergeTool e r) = dedupKey e"
  by (simp add: mergeTool_def dedupKey_def)

lemma keys_mergeInto [simp]: "map dedupKey (mergeInto r kept) = map dedupKey kept"
  by (induction kept) simp_all

lemma dedupLoop_distinct:
  "distinct (map dedupKey kept) \<Longrightarrow> distinct (map dedupKey (dedupLoop kept rs))"
proof (induction rs arbitrary: kept)
  case Nil
  then show ?case by simp
next
  case (Cons r rs)
  show ?case
  proof (cases "dedupKey r \<in> set (map dedupKey kept)")
    case True
    have "distinct (map dedupKey (mergeInto r kept))"
      using Cons.prems by simp
    then show ?thesis
      using True Cons.IH by simp
  next
    case False
    then have "distinct (map dedupKey (kept @ [r]))"
      using Cons.prems by simp
    then show ?thesis
      using False Cons.IH [of "kept @ [r]"] by simp
  qed
qed

lemma dedupLoop_fixed:
  "distinct (map dedupKey (kept @ rs)) \<Longrightarrow> dedupLoop kept rs = kept @ rs"
proof (induction rs arbitrary: kept)
  case Nil
  then show ?case by simp
next
  case (Cons r rs)
  from Cons.prems have fresh: "dedupKey r \<notin> set (map dedupKey kept)"
    by auto
  from Cons.prems have "distinct (map dedupKey ((kept @ [r]) @ rs))"
    by simp
  then have "dedupLoop (kept @ [r]) rs = (kept @ [r]) @ rs"
    by (rule Cons.IH)
  with fresh show ?case by simp
qed

lemma deduplicateResults_distinct: "distinct (map dedupKey (deduplicateResults rs))"
  unfolding deduplicateResults_def by (rule dedupLoop_distinct) simp

text \<open>
  C3. Deduplication is idempotent: running \<open>deduplicateResults\<close> on its own output
  returns that output unchanged, for every list of findings.
\<close>

theorem deduplicateResults_idempotent:
  "deduplicateResults (deduplicateResults L) = deduplicateResults L"
proof -
  have "distinct (map dedupKey ([] @ deduplicateResults L))"
    using deduplicateResults_distinct [of L] by simp
  then have "dedupLoop [] (deduplicateResults L) = [] @ deduplicateResults L"
    by (rule dedupLoop_fixed)
  then show ?thesis
    by (simp add: deduplicateResults_def)
qed

lemma dedupKey_foldl_mergeTool [simp]: "dedupKey (foldl mergeTool e rs) = dedupKey e"
  by (induction rs arbitrary: e) simp_all

lemma sameKey_mergeTool [simp]: "sameKey (mergeTool e r) = sameKey e"
  by (simp add: sameKey_def fun_eq_iff)

lemma mergeInto_map:
  assumes "distinct (map dedupKey kept)" and "dedupKey r \<in> set (map dedupKey kept)"
  shows "map (\<lambda>e. foldl mergeTool e (filter (sameKey e) rs)) (mergeInto r kept)
       = map (\<lambda>e. foldl mergeTool e (filter (sameKey e) (r # rs))) kept"
  using assms
proof (induction kept)
  case Nil
  then show ?case by simp
next
  case (Cons e es)
  show ?case
  proof (cases "dedupKey e = dedupKey r")
    case True
    then have same: "sameKey e r" by (simp add: sameKey_def)
    have "dedupKey r \<notin> set (map dedupKey es)"
      using Cons.prems(1) True by simp
    then have "\<And>x. x \<in> set es \<Longrightarrow> \<not> sameKey x r"
      by (auto simp: sameKey_def)
    then have "map (\<lambda>e. foldl mergeTool e (filter (sameKey e) rs)) es
       = map (\<lambda>e. foldl mergeTool e (filter (sameKey e) (r # rs))) es"
      by (intro map_cong) simp_all
    with True same show ?thesis by simp
  next
    case False
    then have "\<not> sameKey e r" by (simp add: sameKey_def)
    moreover have "map (\<lambda>e. foldl mergeTool e (filter (sameKey e) rs)) (mergeInto r es)
       = map (\<lambda>e. foldl mergeTool e (filter (sameKey e) (r # rs))) es"
      using Cons False by simp
    ultimately show ?thesis using False by simp
  qed
qed

lemma dedupLoop_dedupeBy:
  "distinct (map dedupKey kept) \<Longrightarrow>
   dedupLoop kept rs =
     map (\<lambda>e. foldl mergeTool e (filter (sameKey e) rs)) kept
     @ dedupeBy sameKey (filter (\<lambda>s. dedupKey s \<notin> set (map dedupKey kept)) rs)"
proof (induction rs arbitrary: kept)
  case Nil
  then show ?case by simp
next
  case (Cons r rs)
  let ?F = "\<lambda>rs e. foldl mergeTool e (filter (sameKey e) rs)"
  let ?P = "\<lambda>kept s. dedupKey s \<notin> set (map dedupKey kept)"
  show ?case
  proof (cases "dedupKey r \<in> set (map dedupKey kept)")
    case True
    have "distinct (map dedupKey (mergeInto r kept))" using Cons.prems by simp
    from Cons.IH [OF this] True show ?thesis
      by (simp add: mergeInto_map [OF Cons.prems True])
  next
    case False
    have d: "distinct (map dedupKey (kept @ [r]))" using Cons.prems False by simp
    have m: "map (?F rs) kept = map (?F (r # rs)) kept"
    proof (rule map_cong [OF refl])
      fix e assume "e \<in> set kept"
      with False have "\<not> sameKey e r" by (auto simp: sameKey_def)
      then show "?F rs e = ?F (r # rs) e" by simp
    qed
    have f1: "filter (sameKey r) (filter (?P kept) rs) = filter (sameKey r) rs"
    proof -
      have "\<And>s. sameKey r s \<Longrightarrow> ?P kept s" using False by (simp add: sameKey_def)
      then show ?thesis unfolding filter_filter by (intro filter_cong) auto
    qed
    have f2: "filter (\<lambda>s. \<not> sameKey r s) (filter (?P kept) rs) = filter (?P (kept @ [r])) rs"
      unfolding filter_filter by (intro filter_cong) (auto simp: sameKey_def)
    have "dedupeBy sameKey (filter (?P kept) (r # rs)) = dedupeBy sameKey (r # filter (?P kept) rs)"
      using False by simp
    also have "\<dots> = ?F rs r # dedupeBy sameKey (filter (?P (kept @ [r])) rs)"
      by (simp only: dedupeBy.simps f1 f2)
    finally have tail: "dedupeBy sameKey (filter (?P kept) (r # rs))
        = ?F rs r # dedupeBy sameKey (filter (?P (kept @ [r])) rs)" .
    have "dedupLoop kept (r # rs) = dedupLoop (kept @ [r]) rs" using False by simp
    also have "\<dots> = map (?F rs) (kept @ [r]) @ dedupeBy sameKey (filter (?P (kept @ [r])) rs)"
      by (rule Cons.IH [OF d])
    also have "\<dots> = map (?F rs) kept @ (?F rs r # dedupeBy sameKey (filter (?P (kept @ [r])) rs))"
      by simp
    also have "\<dots> = map (?F (r # rs)) kept @ dedupeBy sameKey (filter (?P kept) (r # rs))"
      by (simp only: m tail)
    finally show ?thesis .
  qed
qed

lemma dedupeBy_cong:
  "(\<And>r s. r \<in> set rs \<Longrightarrow> s \<in> set rs \<Longrightarrow> same1 r s = same2 r s) \<Longrightarrow>
   dedupeBy same1 rs = dedupeBy same2 rs"
proof (induction same1 rs rule: dedupeBy.induct)
  case (1 same)
  then show ?case by simp
next
  case (2 same r rs)
  have a: "filter (same r) rs = filter (same2 r) rs"
    using "2.prems" by (auto intro!: filter_cong)
  have b: "filter (\<lambda>s. \<not> same r s) rs = filter (\<lambda>s. \<not> same2 r s) rs"
    using "2.prems" by (auto intro!: filter_cong)
  have "dedupeBy same (filter (\<lambda>s. \<not> same r s) rs) = dedupeBy same2 (filter (\<lambda>s. \<not> same r s) rs)"
    using "2.prems" by (intro "2.IH") auto
  then show ?case by (simp add: a b)
qed

text \<open>
  Whenever the string keys of a list separate its (file, line, type) triples,
  \<^verbatim>\<open>deduplicateResults\<close> does what the specification says.
\<close>

lemma deduplicateResults_refines_spec:
  assumes "\<And>r s. r \<in> set rs \<Longrightarrow> s \<in> set rs \<Longrightarrow> dedupKey s = dedupKey r \<Longrightarrow> sameIssue r s"
  shows "deduplicateResults rs = dedupe_spec rs"
proof -
  have "deduplicateResults rs = dedupeBy sameKey rs"
    using dedupLoop_dedupeBy [of "[]" rs] by (simp add: deduplicateResults_def)
  also have "\<dots> = dedupeBy sameIssue rs"
  proof (rule dedupeBy_cong)
    fix r s assume "r \<in> set rs" "s \<in> set rs"
    then show "sameKey r s = sameIssue r s"
      using assms [of r s] by (auto simp: sameKey_def sameIssue_def dedupKey_def)
  qed
  finally show ?thesis by (simp add: dedupe_spec_def)
qed

text \<open>
  C2. For every list of findings, \<^verbatim>\<open>deduplicateResults\<close> should keep the first finding
  with each (file, line, type) key, drop the later ones with that key while adding their
  tools to the kept record, and list the kept records in the order of first appearance,
  as \<open>dedupe_spec\<close> does. This fails where two different triples have one string key:
  \<open>collideA\<close> is in file \<^verbatim>\<open>a:1\<close> at line 2 with type \<^verbatim>\<open>x\<close>, \<open>collideB\<close> in file
  \<^verbatim>\<open>a\<close> at line 1 with type \<^verbatim>\<open>2:x\<close>, and both have the key \<^verbatim>\<open>a:1:2:x\<close>. The
  specification keeps both findings; \<^verbatim>\<open>deduplicateResults\<close> drops the second and adds
  its tool to the first.
\<close>

theorem deduplicateResults_key_collision:
  "\<not> sameIssue collideA collideB
   \<and> dedupKey collideA = ''a:1:2:x'' \<and> dedupKey collideB = ''a:1:2:x''
   \<and> dedupe_spec [collideA, collideB] = [collideA, collideB]
   \<and> deduplicateResults [collideA, collideB] = [collideA\<lparr>tool := ''Semgrep, Trivy''\<rparr>]"
  by (simp add: sameIssue_def dedupKey_def dedupe_spec_def deduplicateResults_def mergeTool_def
      collideA_def collideB_def show_nat.simps digit_def)

subsection \<open>Rounded percentages\<close>

lemma Math_round_of_int: "Math_round (of_int k) = k"
  unfolding Math_round_def by (rule floor_unique) simp_all

lemma Math_round_numeral [simp]: "Math_round (numeral v) = numeral v"
  using Math_round_of_int [of "numeral v"] by simp

lemma Math_round_0 [simp]: "Math_round 0 = 0"
  using Math_round_of_int [of 0] by simp





subsection \<open>What running one tool can change\<close>



















subsection \<open>Invariants of the loop over the selected tools\<close>

lemma percents_append [simp]: "percents (xs @ ys) = percents xs @ percents ys"
  by (induction xs rule: percents.induct) simp_all




lemma startScan_valid:
  assumes valid: "validateTarget w (resolveTargetPath w a) = Inr p"
  shows "\<exists>c tn st3. foldl (toolIteration w p (length tools)) (0, [],
             sendProgress (ResolvedTargetPath (resolveTargetPath w a)) 5
               (sendProgress InitializingScan 0 st)) tools = (c, tn, st3)
           \<and> startScan w a tools st =
               (Inr (deduplicateResults (results st3)), tn,
                sendCompletion (sendProgress ScanCompletedSuccessfully 100 st3))"
proof -
  let ?st2 = "sendProgress (ResolvedTargetPath (resolveTargetPath w a)) 5 (sendProgress InitializingScan 0 st)"
  obtain c tn st3 where loop: "foldl (toolIteration w p (length tools)) (0, [], ?st2) tools = (c, tn, st3)"
    by (cases "foldl (toolIteration w p (length tools)) (0, [], ?st2) tools")
  have "startScan w a tools st =
      (Inr (deduplicateResults (results st3)), tn, sendCompletion (sendProgress ScanCompletedSuccessfully 100 st3))"
    using valid loop by (simp add: startScan_def Let_def sendProgress_def)
  with loop show ?thesis by blast
qed





subsection \<open>The test worlds, field by field\<close>

lemma hostWorld_fields:
  "platform hostWorld = ''win32''"
  "MOCK_WSL2 hostWorld = None"
  "ENABLE_ODC hostWorld = None"
  "ODC_NVD_API_KEY hostWorld = None"
  "timeout hostWorld = 300000"
  "odcPath hostWorld = ''dependency-check.bat''"
  "tempDir hostWorld = ''/app/temp''"
  "odcTempDir hostWorld = ''temp/odc-1''"
  "execPromise hostWorld cmd =
     (if cmd = ''wsl --status'' then Some ''Default Version: 2'' else Some ''/mnt/c/srv/project'')"
  "spawn hostWorld c args =
     (if ''semgrep'' \<in> set args then Never else CloseEvent 1200 (Some 0) ''{}'' '''')"
  "uuidv4 hostWorld n = ''id-'' @ show_nat n"
  "parseSemgrepJSON hostWorld out = None"
  "parseTrivyJSON hostWorld out = Some trivyReport"
  "readODCReport hostWorld d = None"
  "mappings hostWorld = [''folder-1'' \<mapsto> ''/srv/project'']"
  "isAbsolute hostWorld q = startsWith q ''/''"
  "pathJoin hostWorld x y = x @ ''/'' @ y"
  "pathResolve hostWorld q = ''/app/backend/'' @ q"
  "existsSync hostWorld q = (q \<in> set [''/srv/project'', ''/app/temp/docs/api'', ''/srv/notes.txt''])"
  "isDirectory hostWorld q = (q \<in> set [''/srv/project'', ''/app/temp/docs/api''])"
  by (simp_all add: hostWorld_def)






subsection \<open>Failure isolation\<close>




subsection \<open>Progress\<close>




subsection \<open>Unknown tools\<close>



subsection \<open>Target validation\<close>

text \<open>
  C6. \<^verbatim>\<open>startScan\<close> gets past target resolution exactly when the resolved path exists
  and is a directory. Otherwise it fails with the error that says so (the target path
  does not exist, or is not a directory), having sent only the three progress events of
  the resolution phase: no tool was started, no process spawned, no result or tool note
  recorded, and the session of the route ends \<open>failed\<close> with that error. In particular
  an identifier that is not registered, not absolute, not UUID-shaped and without a path
  separator, for which neither the staging path nor the local path exists, fails with
  the error that the staging path does not exist.
\<close>

theorem invalid_target_fails_before_any_tool:
  "((\<exists>found. fst (startScan w a tools st) = Inr found)
      \<longleftrightarrow> (\<exists>p. resolveTargetPath w a = Some p \<and> existsSync w p \<and> isDirectory w p))
   \<and> (\<not> (\<exists>p. resolveTargetPath w a = Some p \<and> existsSync w p \<and> isDirectory w p) \<longrightarrow>
        (\<exists>e. (e = TargetPathDoesNotExist (resolveTargetPath w a)
                \<or> (\<exists>p. resolveTargetPath w a = Some p \<and> existsSync w p \<and> e = TargetPathIsNotADirectory p))
           \<and> startScan w a tools st =
               (Inl e, [],
                st\<lparr>progress := 5,
                   emitted := emitted st
                     @ [ProgressEvent (currentTool st) 0 InitializingScan,
                        ProgressEvent (currentTool st) 5 (ResolvedTargetPath (resolveTargetPath w a)),
                        ProgressEvent (currentTool st) 5 (ScanFailed e)]\<rparr>)
           \<and> (a \<noteq> [] \<and> tools \<noteq> [] \<and> \<not> isDirectScan w a \<longrightarrow>
                (\<exists>s. postScan w a tools = Inr s \<and> status s = failed \<and> sessionError s = Some e
                     \<and> sessionResults s = None \<and> toolResults s = []
                     \<and> actions (orchestratorState s) = []))))
   \<and> (\<not> isDirectScan w a \<and> \<not> isAbsolute w a \<and> \<not> uuidRegex a
        \<and> \<not> str_includes a ''/'' \<and> \<not> str_includes a [backslash]
        \<and> \<not> existsSync w (pathJoin w (tempDir w) a) \<and> \<not> existsSync w (pathResolve w a) \<longrightarrow>
        fst (startScan w a tools st) = Inl (TargetPathDoesNotExist (Some (pathJoin w (tempDir w) a))))"
proof (intro conjI impI)
  show "(\<exists>found. fst (startScan w a tools st) = Inr found)
      \<longleftrightarrow> (\<exists>p. resolveTargetPath w a = Some p \<and> existsSync w p \<and> isDirectory w p)"
  proof
    assume "\<exists>found. fst (startScan w a tools st) = Inr found"
    then show "\<exists>p. resolveTargetPath w a = Some p \<and> existsSync w p \<and> isDirectory w p"
      by (auto simp: startScan_def validateTarget_def Let_def split: option.splits if_splits)
  next
    assume "\<exists>p. resolveTargetPath w a = Some p \<and> existsSync w p \<and> isDirectory w p"
    then obtain p where "validateTarget w (resolveTargetPath w a) = Inr p"
      by (auto simp: validateTarget_def)
    from startScan_valid [OF this, of tools st]
    show "\<exists>found. fst (startScan w a tools st) = Inr found" by auto
  qed
next
  assume bad: "\<not> (\<exists>p. resolveTargetPath w a = Some p \<and> existsSync w p \<and> isDirectory w p)"
  show "\<exists>e. (e = TargetPathDoesNotExist (resolveTargetPath w a)
                \<or> (\<exists>p. resolveTargetPath w a = Some p \<and> existsSync w p \<and> e = TargetPathIsNotADirectory p))
           \<and> startScan w a tools st =
               (Inl e, [],
                st\<lparr>progress := 5,
                   emitted := emitted st
                     @ [ProgressEvent (currentTool st) 0 InitializingScan,
                        ProgressEvent (currentTool st) 5 (ResolvedTargetPath (resolveTargetPath w a)),
                        ProgressEvent (currentTool st) 5 (ScanFailed e)]\<rparr>)
           \<and> (a \<noteq> [] \<and> tools \<noteq> [] \<and> \<not> isDirectScan w a \<longrightarrow>
                (\<exists>s. postScan w a tools = Inr s \<and> status s = failed \<and> sessionError s = Some e
                     \<and> sessionResults s = None \<and> toolResults s = []
                     \<and> actions (orchestratorState s) = []))"
  proof (cases "resolveTargetPath w a")
    case None
    then show ?thesis
      by (simp add: startScan_def postScan_def validateTarget_def Let_def sendProgress_def newOrchestrator_def)
  next
    case (Some p)
    show ?thesis
    proof (cases "existsSync w p")
      case False
      with Some show ?thesis
        by (simp add: startScan_def postScan_def validateTarget_def Let_def sendProgress_def newOrchestrator_def)
    next
      case True
      with Some bad have "\<not> isDirectory w p" by simp
      with Some True show ?thesis
        by (simp add: startScan_def postScan_def validateTarget_def Let_def sendProgress_def newOrchestrator_def)
    qed
  qed
next
  assume "\<not> isDirectScan w a \<and> \<not> isAbsolute w a \<and> \<not> uuidRegex a
        \<and> \<not> str_includes a ''/'' \<and> \<not> str_includes a [backslash]
        \<and> \<not> existsSync w (pathJoin w (tempDir w) a) \<and> \<not> existsSync w (pathResolve w a)"
  then show "fst (startScan w a tools st) = Inl (TargetPathDoesNotExist (Some (pathJoin w (tempDir w) a)))"
    by (simp add: startScan_def resolveTargetPath_def validateTarget_def Let_def)
qed

theorem invalid_target_fails_before_any_tool_witness:
  "fst (startScan hostWorld ''not-a-uuid-and-not-absolute'' [''Semgrep''] newOrchestrator)
     = Inl (TargetPathDoesNotExist (Some ''/app/temp/not-a-uuid-and-not-absolute''))
   \<and> (\<exists>e. startScan hostWorld ''/srv/notes.txt'' [''Semgrep''] newOrchestrator =
          (Inl e, [],
           newOrchestrator\<lparr>progress := 5,
              emitted := emitted newOrchestrator
                @ [ProgressEvent (currentTool newOrchestrator) 0 InitializingScan,
                   ProgressEvent (currentTool newOrchestrator) 5
                     (ResolvedTargetPath (resolveTargetPath hostWorld ''/srv/notes.txt'')),
                   ProgressEvent (currentTool newOrchestrator) 5 (ScanFailed e)]\<rparr>))
   \<and> (\<exists>found. fst (startScan hostWorld ''/srv/project'' [''Semgrep''] newOrchestrator) = Inr found)"
proof (intro conjI)
  have "\<not> isDirectScan hostWorld ''not-a-uuid-and-not-absolute''
      \<and> \<not> isAbsolute hostWorld ''not-a-uuid-and-not-absolute''
      \<and> \<not> uuidRegex ''not-a-uuid-and-not-absolute''
      \<and> \<not> str_includes ''not-a-uuid-and-not-absolute'' ''/''
      \<and> \<not> str_includes ''not-a-uuid-and-not-absolute'' [backslash]
      \<and> \<not> existsSync hostWorld (pathJoin hostWorld (tempDir hostWorld) ''not-a-uuid-and-not-absolute'')
      \<and> \<not> existsSync hostWorld (pathResolve hostWorld ''not-a-uuid-and-not-absolute'')"
    by (simp add: isDirectScan_def uuidRegex_def backslash_def hostWorld_fields)
  with invalid_target_fails_before_any_tool
         [of hostWorld "''not-a-uuid-and-not-absolute''" "[''Semgrep'']" newOrchestrator]
  show "fst (startScan hostWorld ''not-a-uuid-and-not-absolute'' [''Semgrep''] newOrchestrator)
     = Inl (TargetPathDoesNotExist (Some ''/app/temp/not-a-uuid-and-not-absolute''))"
    by (simp add: hostWorld_fields)
next
  have "\<not> (\<exists>p. resolveTargetPath hostWorld ''/srv/notes.txt'' = Some p
            \<and> existsSync hostWorld p \<and> isDirectory hostWorld p)"
    by (simp add: resolveTargetPath_def isDirectScan_def hostWorld_fields)
  with invalid_target_fails_before_any_tool
         [of hostWorld "''/srv/notes.txt''" "[''Semgrep'']" newOrchestrator]
  show "\<exists>e. startScan hostWorld ''/srv/notes.txt'' [''Semgrep''] newOrchestrator =
          (Inl e, [],
           newOrchestrator\<lparr>progress := 5,
              emitted := emitted newOrchestrator
                @ [ProgressEvent (currentTool newOrchestrator) 0 InitializingScan,
                   ProgressEvent (currentTool newOrchestrator) 5
                     (ResolvedTargetPath (resolveTargetPath hostWorld ''/srv/notes.txt'')),
                   ProgressEvent (currentTool newOrchestrator) 5 (ScanFailed e)]\<rparr>)"
    by blast
next
  have "\<exists>p. resolveTargetPath hostWorld ''/srv/project'' = Some p
            \<and> existsSync hostWorld p \<and> isDirectory hostWorld p"
    by (simp add: resolveTargetPath_def isDirectScan_def hostWorld_fields)
  with invalid_target_fails_before_any_tool
         [of hostWorld "''/srv/project''" "[''Semgrep'']" newOrchestrator]
  show "\<exists>found. fst (startScan hostWorld ''/srv/project'' [''Semgrep''] newOrchestrator) = Inr found"
    by blast
qed

subsection \<open>Target resolution\<close>

text \<open>
  C5, as amended. \<^verbatim>\<open>resolveTargetPath\<close> takes the first of five cases that applies:
  (1) a target registered for a direct scan (with a non-empty path) resolves to the
  registered path; (2) an absolute path resolves to itself; (3) a UUID-shaped target is
  joined to the staging root; (4) any other target that contains a slash or a backslash
  is resolved against the working directory, and the staging root is not consulted;
  (5) a target without a separator resolves to its staging path if that exists, else to
  its path under the working directory if that exists, else to its staging path.
\<close>

theorem resolveTargetPath_priority:
  "(mappings w tid = Some p \<and> p \<noteq> [] \<longrightarrow> resolveTargetPath w tid = Some p)
   \<and> (\<not> isDirectScan w tid \<and> isAbsolute w tid \<longrightarrow> resolveTargetPath w tid = Some tid)
   \<and> (\<not> isDirectScan w tid \<and> \<not> isAbsolute w tid \<and> uuidRegex tid \<longrightarrow>
         resolveTargetPath w tid = Some (pathJoin w (tempDir w) tid))
   \<and> (\<not> isDirectScan w tid \<and> \<not> isAbsolute w tid \<and> \<not> uuidRegex tid
        \<and> (str_includes tid ''/'' \<or> str_includes tid [backslash]) \<longrightarrow>
         resolveTargetPath w tid = Some (pathResolve w tid))
   \<and> (\<not> isDirectScan w tid \<and> \<not> isAbsolute w tid \<and> \<not> uuidRegex tid
        \<and> \<not> str_includes tid ''/'' \<and> \<not> str_includes tid [backslash] \<longrightarrow>
         resolveTargetPath w tid =
           Some (if existsSync w (pathJoin w (tempDir w) tid) then pathJoin w (tempDir w) tid
                 else if existsSync w (pathResolve w tid) then pathResolve w tid
                 else pathJoin w (tempDir w) tid))"
  by (simp add: resolveTargetPath_def isDirectScan_def getPath_def truthy_def Let_def)

theorem resolveTargetPath_priority_witness:
  "resolveTargetPath hostWorld ''folder-1'' = Some ''/srv/project''
   \<and> resolveTargetPath hostWorld ''/srv/project'' = Some ''/srv/project''
   \<and> resolveTargetPath hostWorld ''123e4567-e89b-12d3-a456-426614174000''
        = Some ''/app/temp/123e4567-e89b-12d3-a456-426614174000''
   \<and> resolveTargetPath hostWorld ''docs/api'' = Some ''/app/backend/docs/api''
   \<and> resolveTargetPath hostWorld ''nope'' = Some ''/app/temp/nope''"
proof (intro conjI)
  have "mappings hostWorld ''folder-1'' = Some ''/srv/project'' \<and> ''/srv/project'' \<noteq> []"
    by (simp add: hostWorld_fields)
  with resolveTargetPath_priority [of hostWorld "''folder-1''" "''/srv/project''"]
  show "resolveTargetPath hostWorld ''folder-1'' = Some ''/srv/project''" by blast
next
  have "\<not> isDirectScan hostWorld ''/srv/project'' \<and> isAbsolute hostWorld ''/srv/project''"
    by (simp add: isDirectScan_def hostWorld_fields)
  with resolveTargetPath_priority [of hostWorld "''/srv/project''"]
  show "resolveTargetPath hostWorld ''/srv/project'' = Some ''/srv/project''" by blast
next
  have "\<not> isDirectScan hostWorld ''123e4567-e89b-12d3-a456-426614174000''
      \<and> \<not> isAbsolute hostWorld ''123e4567-e89b-12d3-a456-426614174000''
      \<and> uuidRegex ''123e4567-e89b-12d3-a456-426614174000''"
    by (simp add: isDirectScan_def uuidRegex_def isHex_def hostWorld_fields)
  with resolveTargetPath_priority [of hostWorld "''123e4567-e89b-12d3-a456-426614174000''"]
  show "resolveTargetPath hostWorld ''123e4567-e89b-12d3-a456-426614174000''
        = Some ''/app/temp/123e4567-e89b-12d3-a456-426614174000''"
    by (simp add: hostWorld_fields)
next
  have "\<not> isDirectScan hostWorld ''docs/api'' \<and> \<not> isAbsolute hostWorld ''docs/api''
      \<and> \<not> uuidRegex ''docs/api''
      \<and> (str_includes ''docs/api'' ''/'' \<or> str_includes ''docs/api'' [backslash])"
    by (simp add: isDirectScan_def uuidRegex_def hostWorld_fields)
  with resolveTargetPath_priority [of hostWorld "''docs/api''"]
  show "resolveTargetPath hostWorld ''docs/api'' = Some ''/app/backend/docs/api''"
    by (simp add: hostWorld_fields)
next
  have "\<not> isDirectScan hostWorld ''nope'' \<and> \<not> isAbsolute hostWorld ''nope''
      \<and> \<not> uuidRegex ''nope''
      \<and> \<not> str_includes ''nope'' ''/'' \<and> \<not> str_includes ''nope'' [backslash]"
    by (simp add: isDirectScan_def uuidRegex_def backslash_def hostWorld_fields)
  with resolveTargetPath_priority [of hostWorld "''nope''"]
  show "resolveTargetPath hostWorld ''nope'' = Some ''/app/temp/nope''"
    by (simp add: hostWorld_fields)
qed

text \<open>
  The claim as stated fails on \<open>hostWorld\<close>: \<^verbatim>\<open>docs/api\<close> is not registered, not absolute
  and not UUID-shaped, and the staging area holds a directory of that name, yet the
  result is the path under the working directory (which does not exist).
\<close>

theorem relative_path_skips_staging_root:
  "\<not> isDirectScan hostWorld ''docs/api'' \<and> \<not> isAbsolute hostWorld ''docs/api''
   \<and> \<not> uuidRegex ''docs/api''
   \<and> existsSync hostWorld (pathJoin hostWorld (tempDir hostWorld) ''docs/api'')
   \<and> isDirectory hostWorld (pathJoin hostWorld (tempDir hostWorld) ''docs/api'')
   \<and> resolveTargetPath hostWorld ''docs/api'' = Some (pathResolve hostWorld ''docs/api'')
   \<and> pathResolve hostWorld ''docs/api'' \<noteq> pathJoin hostWorld (tempDir hostWorld) ''docs/api''
   \<and> \<not> existsSync hostWorld (pathResolve hostWorld ''docs/api'')"
  by (simp add: resolveTargetPath_def isDirectScan_def uuidRegex_def hostWorld_fields)

subsection \<open>Timeouts and exit codes\<close>







subsection \<open>Severities\<close>

lemma mapSemgrepSeverity_canonical: "mapSemgrepSeverity sev \<in> set canonicalSeverities"
proof (cases "map_of semgrepSeverityMap (toUpperCase sev)")
  case None
  then show ?thesis by (simp add: mapSemgrepSeverity_def canonicalSeverities_def)
next
  case (Some v)
  then have "(toUpperCase sev, v) \<in> set semgrepSeverityMap" by (rule map_of_SomeD)
  then have "v \<in> set canonicalSeverities"
    by (auto simp: semgrepSeverityMap_def canonicalSeverities_def)
  with Some show ?thesis by (simp add: mapSemgrepSeverity_def)
qed

lemma collect_member: "x \<in> set (collect xs) \<Longrightarrow> Some x \<in> set xs"
proof -
  assume "x \<in> set (collect xs)"
  then obtain y where y: "y \<in> set xs" "x = the y" and none: "None \<notin> set xs"
    by (auto simp: collect_def split: if_splits)
  show ?thesis
  proof (cases y)
    case None
    with y(1) none show ?thesis by simp
  next
    case (Some z)
    with y show ?thesis by simp
  qed
qed

lemma parseSemgrepOutput_canonical:
  "f \<in> set (parseSemgrepOutput decoded) \<Longrightarrow> severity f \<in> set canonicalSeverities"
proof -
  assume "f \<in> set (parseSemgrepOutput decoded)"
  then obtain r where "semgrepFinding r = Some f"
    by (auto simp: parseSemgrepOutput_def split: option.splits dest!: collect_member)
  then have "severity f = mapSemgrepSeverity (orDefault (r_severity r) ''INFO'')"
    by (auto simp: semgrepFinding_def split: option.splits)
  then show ?thesis by (simp add: mapSemgrepSeverity_canonical)
qed

lemma mapODCSeverity_canonical: "mapODCSeverity sev \<in> set canonicalSeverities"
proof (cases "truthy sev")
  case False
  then show ?thesis by (simp add: mapODCSeverity_def canonicalSeverities_def)
next
  case True
  show ?thesis
  proof (cases "map_of odcSeverityMap (toUpperCase (the sev))")
    case None
    with True show ?thesis by (simp add: mapODCSeverity_def canonicalSeverities_def)
  next
    case (Some v)
    then have "(toUpperCase (the sev), v) \<in> set odcSeverityMap" by (rule map_of_SomeD)
    then have "v \<in> set canonicalSeverities"
      by (auto simp: odcSeverityMap_def canonicalSeverities_def)
    with True Some show ?thesis by (simp add: mapODCSeverity_def)
  qed
qed

lemma foldl_preserves:
  assumes "\<And>a x. P a \<Longrightarrow> P (f a x)" and "P a"
  shows "P (foldl f a xs)"
  using assms(2) by (induction xs arbitrary: a) (simp_all add: assms(1))

lemma odcFinding_canonical:
  "\<forall>f\<in>set (snd acc). severity f \<in> set canonicalSeverities \<Longrightarrow>
   \<forall>f\<in>set (snd (odcFinding ids d acc v)). severity f \<in> set canonicalSeverities"
  by (auto simp: odcFinding_def Let_def mapODCSeverity_canonical)

lemma odcDependency_canonical:
  "\<forall>f\<in>set (snd acc). severity f \<in> set canonicalSeverities \<Longrightarrow>
   \<forall>f\<in>set (snd (odcDependency ids acc d)). severity f \<in> set canonicalSeverities"
proof (cases "vulnerabilities d")
  case None
  assume "\<forall>f\<in>set (snd acc). severity f \<in> set canonicalSeverities"
  with None show ?thesis by (simp add: odcDependency_def)
next
  case (Some vs)
  assume ok: "\<forall>f\<in>set (snd acc). severity f \<in> set canonicalSeverities"
  have "\<forall>f\<in>set (snd (foldl (odcFinding ids d) acc vs)). severity f \<in> set canonicalSeverities"
    by (rule foldl_preserves [where P = "\<lambda>a. \<forall>f\<in>set (snd a). severity f \<in> set canonicalSeverities"])
       (rule odcFinding_canonical, assumption, rule ok)
  with Some show ?thesis by (simp add: odcDependency_def)
qed

lemma parseODCOutput_canonical:
  "f \<in> set (snd (parseODCOutput ids report)) \<Longrightarrow> severity f \<in> set canonicalSeverities"
proof -
  have loop: "\<forall>f\<in>set (snd (foldl (odcDependency ids) (0, []) ds)). severity f \<in> set canonicalSeverities"
    for ds
    by (rule foldl_preserves [where P = "\<lambda>a. \<forall>f\<in>set (snd a). severity f \<in> set canonicalSeverities"])
       (rule odcDependency_canonical, assumption, simp)
  assume "f \<in> set (snd (parseODCOutput ids report))"
  then show ?thesis
    using loop
    by (auto simp: parseODCOutput_def split: option.splits)
qed

text \<open>
  C9. Every finding that a parser produces should carry one of the five canonical
  severities, whatever the raw record says. The Semgrep parser and the ODC parser do map
  every native severity, known or not, into the five levels (the lemmas above), but the
  Trivy parser only upper-cases the native value: the report \<open>trivyReport\<close>, whose only
  vulnerability has the severity \<^verbatim>\<open>UNKNOWN\<close> of Trivy's own vocabulary, yields a finding
  with severity \<^verbatim>\<open>UNKNOWN\<close>.
\<close>

theorem trivy_severity_passes_through:
  "map severity (parseTrivyOutput (Some trivyReport)) = [''UNKNOWN'']
   \<and> ''UNKNOWN'' \<notin> set canonicalSeverities"
  by (simp add: parseTrivyOutput_def trivyReport_def trivyTarget_def trivyFinding_def collect_def
      orDefault_def toUpperCase_def toUpperChar_def lowerAlphabet_def upperAlphabet_def
      canonicalSeverities_def)

end
